theory Spec2Isabelle
  imports Complex_Main
begin

section \<open>Numbers and exceptions of the Python program\<close>

text \<open>
  The program computes with IEEE doubles (Python \<^verbatim>\<open>float\<close> and numpy \<^verbatim>\<open>float64\<close>).
  A finite double is modelled by the real number it denotes, so rounding, overflow,
  underflow and the sign of zero are not part of the model; the two infinities and
  not-a-number are values of their own, with the arithmetic IEEE 754 gives them.
\<close>

datatype pyfloat = Fin real | PInf | NInf | NaN

datatype error =
  ValueError | ZeroDivisionError | AssertionError | UnboundLocalError
  | OverflowError | TypeError

definition ebind :: "error + 'a \<Rightarrow> ('a \<Rightarrow> error + 'b) \<Rightarrow> error + 'b" where
  "ebind m f = (case m of Inl e \<Rightarrow> Inl e | Inr x \<Rightarrow> f x)"

fun fneg :: "pyfloat \<Rightarrow> pyfloat" where
  "fneg (Fin a) = Fin (- a)"
| "fneg PInf = NInf"
| "fneg NInf = PInf"
| "fneg NaN = NaN"

fun fabs :: "pyfloat \<Rightarrow> pyfloat" where
  "fabs (Fin a) = Fin \<bar>a\<bar>"
| "fabs PInf = PInf"
| "fabs NInf = PInf"
| "fabs NaN = NaN"

fun fadd :: "pyfloat \<Rightarrow> pyfloat \<Rightarrow> pyfloat" where
  "fadd (Fin a) (Fin b) = Fin (a + b)"
| "fadd NaN _ = NaN"
| "fadd _ NaN = NaN"
| "fadd PInf NInf = NaN"
| "fadd NInf PInf = NaN"
| "fadd PInf _ = PInf"
| "fadd _ PInf = PInf"
| "fadd NInf _ = NInf"
| "fadd _ NInf = NInf"

definition fsub :: "pyfloat \<Rightarrow> pyfloat \<Rightarrow> pyfloat" where
  "fsub x y = fadd x (fneg y)"

fun fmul :: "pyfloat \<Rightarrow> pyfloat \<Rightarrow> pyfloat" where
  "fmul (Fin a) (Fin b) = Fin (a * b)"
| "fmul NaN _ = NaN"
| "fmul _ NaN = NaN"
| "fmul PInf (Fin b) = (if b = 0 then NaN else if 0 < b then PInf else NInf)"
| "fmul NInf (Fin b) = (if b = 0 then NaN else if 0 < b then NInf else PInf)"
| "fmul (Fin a) PInf = (if a = 0 then NaN else if 0 < a then PInf else NInf)"
| "fmul (Fin a) NInf = (if a = 0 then NaN else if 0 < a then NInf else PInf)"
| "fmul PInf PInf = PInf"
| "fmul PInf NInf = NInf"
| "fmul NInf PInf = NInf"
| "fmul NInf NInf = PInf"

text \<open>
  \<^verbatim>\<open>x ** 2\<close> on a float, as the exact square. On a Python float the operator raises
  \<^verbatim>\<open>OverflowError\<close> when the square leaves the range of doubles, and a square below
  the smallest double is \<open>0.0\<close>: like rounding, neither is part of the model.
\<close>

definition fpow2 :: "pyfloat \<Rightarrow> pyfloat" where
  "fpow2 x = fmul x x"

text \<open>
  IEEE division, as numpy's \<^verbatim>\<open>float64\<close> performs it: a zero divisor gives an infinity
  or not-a-number (and a warning), never an exception. The zero divisor is read as
  \<open>+0.0\<close>.
\<close>

fun fdiv_np :: "pyfloat \<Rightarrow> pyfloat \<Rightarrow> pyfloat" where
  "fdiv_np (Fin a) (Fin b) =
     (if b = 0 then (if a = 0 then NaN else if 0 < a then PInf else NInf)
      else Fin (a / b))"
| "fdiv_np NaN _ = NaN"
| "fdiv_np _ NaN = NaN"
| "fdiv_np (Fin a) PInf = Fin 0"
| "fdiv_np (Fin a) NInf = Fin 0"
| "fdiv_np PInf (Fin b) = (if 0 \<le> b then PInf else NInf)"
| "fdiv_np NInf (Fin b) = (if 0 \<le> b then NInf else PInf)"
| "fdiv_np PInf PInf = NaN"
| "fdiv_np PInf NInf = NaN"
| "fdiv_np NInf PInf = NaN"
| "fdiv_np NInf NInf = NaN"

text \<open>Division of Python floats: a zero divisor raises \<^verbatim>\<open>ZeroDivisionError\<close>.\<close>

definition fdiv_py :: "pyfloat \<Rightarrow> pyfloat \<Rightarrow> error + pyfloat" where
  "fdiv_py x y = (if y = Fin 0 then Inl ZeroDivisionError else Inr (fdiv_np x y))"

text \<open>
  A division with an operand taken from the covariance summary is a numpy division
  when the summary holds \<^verbatim>\<open>float64\<close> scalars (\<open>np = True\<close>, what \<^verbatim>\<open>np.cov\<close> returns in
  \<^verbatim>\<open>fvspart_series\<close>) and a Python division when it holds Python floats
  (\<open>np = False\<close>, a summary built by hand).
\<close>

definition fdiv :: "bool \<Rightarrow> pyfloat \<Rightarrow> pyfloat \<Rightarrow> error + pyfloat" where
  "fdiv np x y = (if np then Inr (fdiv_np x y) else fdiv_py x y)"

text \<open>\<^verbatim>\<open>math.sqrt\<close>: raises \<^verbatim>\<open>ValueError\<close> below zero, returns nan on nan.\<close>

fun math_sqrt :: "pyfloat \<Rightarrow> error + pyfloat" where
  "math_sqrt (Fin a) = (if a < 0 then Inl ValueError else Inr (Fin (sqrt a)))"
| "math_sqrt PInf = Inr PInf"
| "math_sqrt NInf = Inl ValueError"
| "math_sqrt NaN = Inr NaN"

text \<open>The comparisons \<^verbatim>\<open><\<close> and \<^verbatim>\<open><=\<close>: false as soon as one side is nan.\<close>

fun flt :: "pyfloat \<Rightarrow> pyfloat \<Rightarrow> bool" where
  "flt (Fin a) (Fin b) = (a < b)"
| "flt NaN _ = False"
| "flt _ NaN = False"
| "flt _ NInf = False"
| "flt PInf _ = False"
| "flt NInf _ = True"
| "flt _ PInf = True"

fun fle :: "pyfloat \<Rightarrow> pyfloat \<Rightarrow> bool" where
  "fle (Fin a) (Fin b) = (a \<le> b)"
| "fle NaN _ = False"
| "fle _ NaN = False"
| "fle NInf _ = True"
| "fle _ PInf = True"
| "fle _ NInf = False"
| "fle PInf _ = False"

section \<open>Containers\<close>

text \<open>
  The named tuples of \<^verbatim>\<open>fluxpart.containers\<close>, with the fields \<^verbatim>\<open>partition.py\<close> reads
  and writes.
\<close>

record WQCData =
  wq :: pyfloat
  wc :: pyfloat
  var_q :: pyfloat
  var_c :: pyfloat
  corr_qc :: pyfloat

record RootSoln =
  rs_corr_cp_cr :: pyfloat
  rs_var_cp :: pyfloat
  rs_sig_cr :: pyfloat
  rs_co2soln_id :: "int option"
  rs_isvalid :: bool
  rs_mssg :: string

record MassFluxes =
  Fq :: pyfloat
  Fqt :: pyfloat
  Fqe :: pyfloat
  Fc :: pyfloat
  Fcp :: pyfloat
  Fcr :: pyfloat

text \<open>
  Modelled from the spec: the constructor \<^verbatim>\<open>MassFluxes()\<close> of \<^verbatim>\<open>containers.py\<close>, which
  is not among the sources; its default value is nan in all six fields.
\<close>

definition MassFluxes_default :: MassFluxes where
  "MassFluxes_default =
     \<lparr>Fq = NaN, Fqt = NaN, Fqe = NaN, Fc = NaN, Fcp = NaN, Fcr = NaN\<rparr>"

record FVSPResult =
  wqc_data :: WQCData
  rootsoln :: RootSoln
  fluxes :: MassFluxes
  valid_partition :: bool
  mssg :: string
  wave_lvl :: "(int \<times> int) option"

text \<open>
  A Python value passed as \<^verbatim>\<open>farg\<close> or \<^verbatim>\<open>co2soln_id\<close>: \<^verbatim>\<open>None\<close>, an \<^verbatim>\<open>int\<close> or a float.
\<close>

datatype pynum = PyNone | PyInt int | PyFloat pyfloat

section \<open>The partitioning functions of partition.py\<close>

subsection \<open>flux_ratio\<close>

text \<open>\<^verbatim>\<open>farg == 1\<close>.\<close>

fun eq_one :: "pynum \<Rightarrow> bool" where
  "eq_one PyNone = False"
| "eq_one (PyInt n) = (n = 1)"
| "eq_one (PyFloat x) = (x = Fin 1)"

text \<open>\<^verbatim>\<open>farg ** 2 * wqc_data.var_q\<close>; squaring \<^verbatim>\<open>None\<close> raises \<^verbatim>\<open>TypeError\<close>.\<close>

fun sq_times :: "pynum \<Rightarrow> pyfloat \<Rightarrow> error + pyfloat" where
  "sq_times PyNone v = Inl TypeError"
| "sq_times (PyInt n) v = Inr (fmul (Fin (of_int (n * n))) v)"
| "sq_times (PyFloat x) v = Inr (fmul (fpow2 x) v)"

text \<open>
  The argument \<open>corr_cp_cr\<close> is a Python float wherever this file calls the function
  (it is \<^verbatim>\<open>-math.sqrt(rho_sq)\<close>), so \<^verbatim>\<open>1 / corr_cp_cr ** 2\<close> is a Python division.
\<close>

definition flux_ratio ::
  "bool \<Rightarrow> pyfloat \<Rightarrow> pyfloat \<Rightarrow> WQCData \<Rightarrow> string \<Rightarrow> pynum \<Rightarrow> error + pyfloat" where
  "flux_ratio np var_cp corr_cp_cr wqc ftype farg =
     ebind
       (if ftype = ''co2'' \<or> ftype = ''CO2''
        then Inr (if eq_one farg then (1::real) else - 1, var_c wqc)
        else if ftype = ''h2o'' \<or> ftype = ''H2O''
        then ebind (sq_times farg (var_q wqc)) (\<lambda>num. Inr (1, num))
        else Inl ValueError)
       (\<lambda>(sign, num).
     ebind (fdiv_py (Fin 1) (fpow2 corr_cp_cr)) (\<lambda>t1.
     ebind (fdiv np num var_cp) (\<lambda>t2.
     ebind (fdiv np t2 (fpow2 corr_cp_cr)) (\<lambda>t3.
       let disc = fadd (fsub (Fin 1) t1) t3 in
       if flt disc (Fin 0) then Inr NaN
       else ebind (math_sqrt disc) (\<lambda>s.
         Inr (fmul (fpow2 corr_cp_cr) (fsub (fmul (Fin sign) s) (Fin 1))))))))"

subsection \<open>_mass_fluxes\<close>

fun id_arg :: "int option \<Rightarrow> pynum" where
  "id_arg None = PyNone"
| "id_arg (Some k) = PyInt k"

definition mass_fluxes ::
  "bool \<Rightarrow> pyfloat \<Rightarrow> pyfloat \<Rightarrow> WQCData \<Rightarrow> pyfloat \<Rightarrow> int option \<Rightarrow> error + MassFluxes"
  where
  "mass_fluxes np var_cp corr_cp_cr wqc wue co2soln_id =
     ebind (flux_ratio np var_cp corr_cp_cr wqc ''co2'' (id_arg co2soln_id))
       (\<lambda>wcr_ov_wcp.
     ebind (fdiv np (wc wqc) (fadd wcr_ov_wcp (Fin 1))) (\<lambda>wcp.
       let wcr = fsub (wc wqc) wcp in
     ebind (fdiv np wcp wue) (\<lambda>wqt.
       let wqe = fsub (wq wqc) wqt in
       Inr \<lparr>Fq = wq wqc, Fqt = wqt, Fqe = wqe, Fc = wc wqc, Fcp = wcp, Fcr = wcr\<rparr>)))"

subsection \<open>_residual_func\<close>

definition residual_func ::
  "bool \<Rightarrow> pyfloat \<times> pyfloat \<Rightarrow> WQCData \<Rightarrow> pyfloat \<Rightarrow> int \<Rightarrow> error + pyfloat \<times> pyfloat"
  where
  "residual_func np x wqc wue co2soln_id =
     (case x of (corr_cp_cr, var_cp) \<Rightarrow>
     ebind (flux_ratio np var_cp corr_cp_cr wqc ''co2'' (PyInt co2soln_id))
       (\<lambda>wcr_ov_wcp.
     ebind (flux_ratio np var_cp corr_cp_cr wqc ''h2o'' (PyFloat wue))
       (\<lambda>wqe_ov_wqt.
     ebind (fdiv np (fmul wue (wq wqc)) (wc wqc)) (\<lambda>t.
       let lhs1 = fmul t (fadd wcr_ov_wcp (Fin 1));
           rhs1 = fadd wqe_ov_wqt (Fin 1);
           resid1 = fsub lhs1 rhs1;
           lhs2 = fmul wue (corr_qc wqc) in
     ebind (math_sqrt (fmul (var_c wqc) (var_q wqc))) (\<lambda>s.
     ebind (fdiv np s var_cp) (\<lambda>u.
       let lhs2 = fmul lhs2 u;
           rhs2 = fadd (fadd (Fin 1) wqe_ov_wqt) wcr_ov_wcp in
     ebind (fdiv_py (fmul wqe_ov_wqt wcr_ov_wcp) (fpow2 corr_cp_cr)) (\<lambda>v.
       let rhs2 = fadd rhs2 v;
           resid2 = fsub lhs2 rhs2 in
       Inr (resid1, resid2))))))))"

subsection \<open>_isvalid_root and _isvalid_partition\<close>

definition isvalid_root :: "pyfloat \<Rightarrow> pyfloat \<Rightarrow> bool \<times> string" where
  "isvalid_root corr_cp_cr var_cp =
     (let isvalid = True; mssg = '''';
          (isvalid, mssg) =
            (if fle var_cp (Fin 0) then (False, mssg @ ''var_cp <= 0; '')
             else (isvalid, mssg));
          (isvalid, mssg) =
            (if \<not> (flt (Fin (- 1)) corr_cp_cr \<and> flt corr_cp_cr (Fin 0))
             then (False, mssg @ ''corr_cp_cr <-1 OR >0; '')
             else (isvalid, mssg))
      in (isvalid, mssg))"

definition isvalid_partition :: "MassFluxes \<Rightarrow> bool \<times> string" where
  "isvalid_partition fc =
     (let isvalid = True; mssg = '''';
          (isvalid, mssg) =
            (if fle (Fqt fc) (Fin 0) then (False, mssg @ ''Fqt <= 0; '')
             else (isvalid, mssg));
          (isvalid, mssg) =
            (if fle (Fqe fc) (Fin 0) then (False, mssg @ ''Fqe <= 0; '')
             else (isvalid, mssg));
          (isvalid, mssg) =
            (if fle (Fin 0) (Fcp fc) then (False, mssg @ ''Fcp >= 0; '')
             else (isvalid, mssg));
          (isvalid, mssg) =
            (if fle (Fcr fc) (Fin 0) then (False, mssg @ ''Fcr <= 0; '')
             else (isvalid, mssg))
      in (isvalid, mssg))"

subsection \<open>_adjust_fluxes\<close>

definition adjust_fluxes ::
  "bool \<Rightarrow> MassFluxes \<Rightarrow> pyfloat \<Rightarrow> pyfloat \<Rightarrow> pyfloat \<Rightarrow> error + MassFluxes" where
  "adjust_fluxes np fc wue Fq_tot Fc_tot =
     (let Fq_diff = fsub Fq_tot (fadd (Fqe fc) (Fqt fc)) in
      ebind (fdiv np (Fqe fc) (fadd (Fqt fc) (Fqe fc))) (\<lambda>t.
        let Fqe' = fadd (Fqe fc) (fmul Fq_diff t);
            Fqt' = fsub Fq_tot Fqe';
            Fcp' = fmul wue Fqt';
            Fcr' = fsub Fc_tot Fcp'
        in Inr \<lparr>Fq = Fq_tot, Fqt = Fqt', Fqe = Fqe', Fc = Fc_tot, Fcp = Fcp', Fcr = Fcr'\<rparr>))"

subsection \<open>findroot\<close>

text \<open>
  Lines 170 to 194 of \<^verbatim>\<open>findroot\<close>: the rescaling of the summary and the closed form of
  the trial root. The value is the rescaled summary, the rescaled \<open>wue\<close>, \<open>var_cp\<close>
  and \<open>corr_cp_cr\<close>.
\<close>

definition findroot_trial ::
  "bool \<Rightarrow> WQCData \<Rightarrow> pyfloat \<Rightarrow> error + WQCData \<times> pyfloat \<times> pyfloat \<times> pyfloat" where
  "findroot_trial np wqc wue0 =
     (let var_q' = fmul (var_q wqc) (Fin 1000000);
          var_c' = fmul (var_c wqc) (Fin 1000000000000);
          wq' = fmul (wq wqc) (Fin 1000);
          wc' = fmul (wc wqc) (Fin 1000000);
          corr_qc' = corr_qc wqc;
          wue = fmul wue0 (Fin 1000) in
      ebind (math_sqrt var_q') (\<lambda>sd_q.
      ebind (math_sqrt var_c') (\<lambda>sd_c.
        let numer = fmul (fmul (fmul (fmul (fmul (Fin (- 2)) corr_qc') sd_c) sd_q) wq') wc';
            numer = fadd numer (fadd (fmul var_c' (fpow2 wq')) (fmul var_q' (fpow2 wc')));
            numer = fmul numer
              (fmul (fmul (fmul (fneg (fsub (fpow2 corr_qc') (Fin 1))) var_c') var_q')
                 (fpow2 wue));
            denom = fmul (fmul (fmul (fneg corr_qc') sd_c) sd_q) (fadd wc' (fmul wq' wue));
            denom = fadd denom (fadd (fmul var_c' wq') (fmul (fmul var_q' wc') wue));
            denom = fpow2 denom in
      ebind (fdiv np numer denom) (\<lambda>var_cp.
        let numer = fmul (fmul (fmul (fneg (fsub (fpow2 corr_qc') (Fin 1))) var_c') var_q')
                      (fpow2 (fsub wc' (fmul wq' wue)));
            denom = fmul (fmul (fmul (fmul (fmul (Fin (- 2)) corr_qc') sd_c) sd_q) wc') wq';
            denom = fadd denom (fadd (fmul var_c' (fpow2 wq')) (fmul var_q' (fpow2 wc')));
            denom = fmul denom
              (fadd (fadd (fmul (fmul (fmul (fmul (Fin (- 2)) corr_qc') sd_c) sd_q) wue) var_c')
                 (fmul var_q' (fpow2 wue))) in
      ebind (fdiv np numer denom) (\<lambda>rho_sq.
      ebind (math_sqrt rho_sq) (\<lambda>s.
        Inr (\<lparr>wq = wq', wc = wc', var_q = var_q', var_c = var_c', corr_qc = corr_qc'\<rparr>,
             wue, var_cp, fneg s)))))))"

text \<open>\<^verbatim>\<open>tol = 1e-12\<close> and the test \<^verbatim>\<open>abs(r[0]) < tol and abs(r[1]) < tol\<close>.\<close>

definition tol :: pyfloat where
  "tol = Fin (1 / 1000000000000)"

definition within_tol :: "pyfloat \<times> pyfloat \<Rightarrow> bool" where
  "within_tol r = (flt (fabs (fst r)) tol \<and> flt (fabs (snd r)) tol)"

text \<open>The truth value Python gives \<^verbatim>\<open>co2soln_id\<close>: \<^verbatim>\<open>None\<close> and \<^verbatim>\<open>0\<close> are false.\<close>

fun py_truthy :: "int option \<Rightarrow> bool" where
  "py_truthy None = False"
| "py_truthy (Some k) = (k \<noteq> 0)"

definition findroot :: "bool \<Rightarrow> WQCData \<Rightarrow> pyfloat \<Rightarrow> error + RootSoln" where
  "findroot np wqc wue0 =
     ebind (findroot_trial np wqc wue0) (\<lambda>(scaled_wqc_data, wue, var_cp, corr_cp_cr).
       let (valid_root, valid_mssg) = isvalid_root corr_cp_cr var_cp;
           co2soln_id = None;
           sig_cr = NaN in
       ebind
         (if valid_root then
            (let valid_root = False;
                 valid_mssg = ''Trial root did not satisfy equations'' in
             ebind (residual_func np (corr_cp_cr, var_cp) scaled_wqc_data wue 0) (\<lambda>r0.
             ebind (residual_func np (corr_cp_cr, var_cp) scaled_wqc_data wue 1) (\<lambda>r1.
               let (co2soln_id, valid_root, valid_mssg) =
                     (if within_tol r0 then (Some 0, True, [])
                      else (co2soln_id, valid_root, valid_mssg)) in
             ebind
               (if within_tol r1 then
                  (if py_truthy co2soln_id then Inl AssertionError
                   else Inr (Some 1, True, []))
                else Inr (co2soln_id, valid_root, valid_mssg))
               (\<lambda>(co2soln_id, valid_root, valid_mssg).
             ebind
               (if valid_root then
                  ebind (flux_ratio np var_cp corr_cp_cr scaled_wqc_data ''co2''
                           (id_arg co2soln_id)) (\<lambda>wcr_ov_wcp.
                  ebind (math_sqrt var_cp) (\<lambda>s.
                    fdiv_py (fmul wcr_ov_wcp s) corr_cp_cr))
                else Inr sig_cr)
               (\<lambda>sig_cr. Inr (co2soln_id, sig_cr, valid_root, valid_mssg))))))
          else Inr (co2soln_id, sig_cr, valid_root, valid_mssg))
         (\<lambda>(co2soln_id, sig_cr, valid_root, valid_mssg).
            Inr \<lparr>rs_corr_cp_cr = corr_cp_cr,
                 rs_var_cp = fmul var_cp (Fin (1 / 1000000000000)),
                 rs_sig_cr = fmul sig_cr (Fin (1 / 1000000)),
                 rs_co2soln_id = co2soln_id,
                 rs_isvalid = valid_root,
                 rs_mssg = valid_mssg\<rparr>))"

subsection \<open>fvspart_interval and fvspart_series\<close>

definition fvspart_interval ::
  "bool \<Rightarrow> WQCData \<Rightarrow> pyfloat \<Rightarrow> bool \<Rightarrow> error + FVSPResult" where
  "fvspart_interval np wqc wue wipe_if_invalid =
     ebind (findroot np wqc wue) (\<lambda>rs.
       if \<not> rs_isvalid rs then
         Inr \<lparr>wqc_data = wqc, rootsoln = rs, fluxes = MassFluxes_default,
              valid_partition = False, mssg = rs_mssg rs, wave_lvl = None\<rparr>
       else
         ebind (mass_fluxes np (rs_var_cp rs) (rs_corr_cp_cr rs) wqc wue (rs_co2soln_id rs))
           (\<lambda>mf.
             let (isvalid, m) = isvalid_partition mf;
                 mf = (if \<not> isvalid \<and> wipe_if_invalid then MassFluxes_default else mf) in
             Inr \<lparr>wqc_data = wqc, rootsoln = rs, fluxes = mf,
                  valid_partition = isvalid, mssg = m, wave_lvl = None\<rparr>))"

text \<open>
  \<^verbatim>\<open>np.cov\<close> is a parameter: \<open>np_cov rows i j\<close> is entry \<open>(i, j)\<close> of the covariance
  matrix of the rows. Its entries are \<^verbatim>\<open>float64\<close>, so the divisions below are numpy's.
\<close>

type_synonym covfun = "pyfloat list list \<Rightarrow> nat \<Rightarrow> nat \<Rightarrow> pyfloat"

definition fvspart_series ::
  "covfun \<Rightarrow> pyfloat list \<Rightarrow> pyfloat list \<Rightarrow> pyfloat list \<Rightarrow> pyfloat \<Rightarrow> bool
     \<Rightarrow> error + FVSPResult" where
  "fvspart_series np_cov w q c wue wipe_if_invalid =
     (let cov = np_cov [w, q, c] in
      ebind (math_sqrt (fmul (cov 1 1) (cov 2 2))) (\<lambda>s.
      ebind (fdiv True (cov 1 2) s) (\<lambda>r.
        fvspart_interval True
          \<lparr>wq = cov 0 1, wc = cov 0 2, var_q = cov 1 1, var_c = cov 2 2, corr_qc = r\<rparr>
          wue False)))"

subsection \<open>_progressive_lowcut and fvspart_progressive\<close>




type_synonym series = "pyfloat list"






section \<open>Vocabulary of the properties and concrete inputs\<close>

text \<open>
  Branch \<open>k\<close> of the CO2 ratio validates at the trial root \<open>x\<close>: the residual is
  computed and both its components are within the tolerance.
\<close>

definition branch_ok :: "bool \<Rightarrow> pyfloat \<times> pyfloat \<Rightarrow> WQCData \<Rightarrow> pyfloat \<Rightarrow> int \<Rightarrow> bool" where
  "branch_ok np x wqc wue k =
     (case residual_func np x wqc wue k of Inl e \<Rightarrow> False | Inr r \<Rightarrow> within_tol r)"

text \<open>
  A summary whose trial root is \<open>var_cp = 12e12\<close>, \<open>corr_cp_cr = -1/2\<close> in rescaled
  units, where the discriminant of the CO2 ratio is zero; it is used with \<open>wue = -1\<close>.
\<close>

definition wqc_both :: WQCData where
  "wqc_both =
     \<lparr>wq = Fin 2, wc = Fin (- 1), var_q = Fin 36, var_c = Fin 9, corr_qc = Fin (- 1 / 2)\<rparr>"

text \<open>A summary for which the CO2 discriminant at \<open>var_cp = 1\<close>, \<open>corr_cp_cr = -1/2\<close> is \<open>-1\<close>.\<close>

definition wqc_negdisc :: WQCData where
  "wqc_negdisc =
     \<lparr>wq = Fin 1, wc = Fin (- 1), var_q = Fin 1, var_c = Fin (1 / 2), corr_qc = Fin (- 1 / 2)\<rparr>"

text \<open>The same with \<open>var_c = 3\<close>: the discriminant is 9 and branch 0 gives the ratio \<open>-1\<close>.\<close>

definition wqc_minus1 :: WQCData where
  "wqc_minus1 =
     \<lparr>wq = Fin 1, wc = Fin (- 1), var_q = Fin 1, var_c = Fin 3, corr_qc = Fin (- 1 / 2)\<rparr>"


definition wqc_sflip :: WQCData where
  "wqc_sflip =
     \<lparr>wq = Fin (- 67), wc = Fin 31, var_q = Fin 121, var_c = Fin 49,
      corr_qc = Fin (- 13 / 77)\<rparr>"

text \<open>
  A summary whose trial root (\<open>var_cp = 16e12\<close>, \<open>corr_cp_cr = -4/5\<close> rescaled) passes
  the bounds check and is validated by neither branch (first residual \<open>-18/25\<close>).
\<close>

definition wqc_none :: WQCData where
  "wqc_none =
     \<lparr>wq = Fin 0, wc = Fin (- 1), var_q = Fin 9, var_c = Fin 16, corr_qc = Fin 0\<rparr>"

text \<open>The three summaries in the units \<^verbatim>\<open>findroot\<close> rescales them to.\<close>

definition sc_both :: WQCData where
  "sc_both =
     \<lparr>wq = Fin 2000, wc = Fin (- 1000000), var_q = Fin 36000000,
      var_c = Fin 9000000000000, corr_qc = Fin (- (1 / 2))\<rparr>"


definition sc_none :: WQCData where
  "sc_none =
     \<lparr>wq = Fin 0, wc = Fin (- 1000000), var_q = Fin 9000000,
      var_c = Fin 16000000000000, corr_qc = Fin 0\<rparr>"

text \<open>
  A summary of two series with zero net fluxes, one whose \<open>corr_qc\<close> lies outside
  \<open>[-1, 1]\<close>, and one with a negative variance.
\<close>

definition wqc_zero :: WQCData where
  "wqc_zero =
     \<lparr>wq = Fin 0, wc = Fin 0, var_q = Fin 1, var_c = Fin 1, corr_qc = Fin 0\<rparr>"

definition wqc_over :: WQCData where
  "wqc_over =
     \<lparr>wq = Fin 1, wc = Fin 0, var_q = Fin 1, var_c = Fin 1, corr_qc = Fin 2\<rparr>"

definition wqc_negvar :: WQCData where
  "wqc_negvar =
     \<lparr>wq = Fin 1, wc = Fin 1, var_q = Fin (- 1), var_c = Fin 1, corr_qc = Fin 0\<rparr>"



text \<open>
  Inputs for the series functions. The filtered series of level \<open>t\<close> is four samples
  equal to \<open>t\<close>; \<open>cov_tab\<close> stands for \<^verbatim>\<open>np.cov\<close> and reads the covariance matrix of a
  triple off its first sample: level 0 has the summary \<open>wqc_none\<close>, level 1 has
  \<open>wqc_single\<close> and level 2 has \<open>wqc_sflip\<close>; on a pair of series it gives the net
  fluxes of the unfiltered data, 134 for water and -62 for CO2.
\<close>

fun tag :: "pyfloat list list \<Rightarrow> real" where
  "tag ((Fin t # _) # _) = t"
| "tag _ = 0"

definition tab :: "real \<Rightarrow> real \<Rightarrow> real \<Rightarrow> real \<Rightarrow> real \<Rightarrow> nat \<Rightarrow> nat \<Rightarrow> pyfloat" where
  "tab a b vq vc cqc i j =
     (if (i, j) = (0, 1) then Fin a else if (i, j) = (0, 2) then Fin b
      else if (i, j) = (1, 1) then Fin vq else if (i, j) = (2, 2) then Fin vc
      else if (i, j) = (1, 2) then Fin cqc else Fin 1)"

definition cov_tab :: covfun where
  "cov_tab rows =
     (if length rows = 2 then (\<lambda>i j. if tag (tl rows) = 8 then Fin 134 else Fin (- 62))
      else if tag rows = 0 then tab 0 (- 1) 9 16 0
      else if tag rows = 1 then tab 67 (- 31) 121 49 (- 13)
      else tab (- 67) 31 121 49 (- 13))"

definition lvl :: "real \<Rightarrow> series" where
  "lvl t = [Fin t, Fin t, Fin t, Fin t]"






section \<open>Basic facts\<close>

lemmas arith_defs = Let_def ebind_def fdiv_def fdiv_py_def fsub_def fpow2_def

lemma ebind_Inl_iff: "(ebind m f = Inl e) = (m = Inl e \<or> (\<exists>x. m = Inr x \<and> f x = Inl e))"
  by (cases m) (simp_all add: ebind_def)

lemma ebind_Inr_iff: "(ebind m f = Inr y) = (\<exists>x. m = Inr x \<and> f x = Inr y)"
  by (cases m) (simp_all add: ebind_def)

lemma sqrt_sq: "0 \<le> a \<Longrightarrow> a * a = b \<Longrightarrow> sqrt b = a"
  by (metis real_sqrt_abs2 abs_of_nonneg)

lemma nan_absorbs [simp]:
  "fadd x NaN = NaN" "fmul x NaN = NaN" "fdiv_np x NaN = NaN"
  "fsub NaN x = NaN" "fsub x NaN = NaN"
  by (cases x; simp add: fsub_def)+

lemma fle_zero_not_nan: "x \<noteq> NaN \<Longrightarrow> (\<not> fle x (Fin 0)) = flt (Fin 0) x"
  by (cases x) auto

lemma zero_fle_not_nan: "x \<noteq> NaN \<Longrightarrow> (\<not> fle (Fin 0) x) = flt x (Fin 0)"
  by (cases x) auto

section \<open>The sign check\<close>

lemma isvalid_partition_fst:
  "fst (isvalid_partition fc) =
     (\<not> fle (Fqt fc) (Fin 0) \<and> \<not> fle (Fqe fc) (Fin 0)
      \<and> \<not> fle (Fin 0) (Fcp fc) \<and> \<not> fle (Fcr fc) (Fin 0))"
  by (simp add: isvalid_partition_def Let_def)

lemma isvalid_partition_snd:
  "snd (isvalid_partition fc) =
     (if fle (Fqt fc) (Fin 0) then ''Fqt <= 0; '' else []) @
     (if fle (Fqe fc) (Fin 0) then ''Fqe <= 0; '' else []) @
     (if fle (Fin 0) (Fcp fc) then ''Fcp >= 0; '' else []) @
     (if fle (Fcr fc) (Fin 0) then ''Fcr <= 0; '' else [])"
  by (simp add: isvalid_partition_def Let_def)

text \<open>
  On records without nan the check is the four strict sign constraints, and a record
  marked invalid carries the token of its first violated constraint at least.
\<close>

lemma isvalid_partition_no_nan:
  assumes "Fqt fc \<noteq> NaN" "Fqe fc \<noteq> NaN" "Fcp fc \<noteq> NaN" "Fcr fc \<noteq> NaN"
  shows "fst (isvalid_partition fc) =
     (flt (Fin 0) (Fqt fc) \<and> flt (Fin 0) (Fqe fc) \<and> flt (Fcp fc) (Fin 0) \<and> flt (Fin 0) (Fcr fc))"
  using assms by (simp add: isvalid_partition_fst fle_zero_not_nan zero_fle_not_nan)

lemma isvalid_partition_invalid_mssg:
  "\<not> fst (isvalid_partition fc) \<Longrightarrow> snd (isvalid_partition fc) \<noteq> []"
  by (auto simp: isvalid_partition_fst isvalid_partition_snd)

text \<open>
  C7. The claim: the sign check marks a partition valid exactly when \<open>Fqt > 0\<close>,
  \<open>Fqe > 0\<close>, \<open>Fcp < 0\<close> and \<open>Fcr > 0\<close>. The code tests the negated comparisons, which
  are all false on nan: the default record, nan in every field, is marked valid with an
  empty message although none of the four constraints holds.
\<close>

theorem isvalid_partition_default_marked_valid:
  "isvalid_partition MassFluxes_default = (True, [])
   \<and> \<not> flt (Fin 0) (Fqt MassFluxes_default) \<and> \<not> flt (Fin 0) (Fqe MassFluxes_default)
   \<and> \<not> flt (Fcp MassFluxes_default) (Fin 0) \<and> \<not> flt (Fin 0) (Fcr MassFluxes_default)"
  by (simp add: isvalid_partition_def MassFluxes_default_def)

text \<open>
  C4. The claim: when the CO2 flux ratio is the nan sentinel, the sign check marks the
  partition invalid. At \<open>var_cp = 1\<close>, \<open>corr_cp_cr = -1/2\<close>, \<open>var_c = 1/2\<close> the
  discriminant is \<open>-1\<close>, the ratio is nan, the four partitioned fluxes are nan, and the
  sign check marks the partition valid, for Python floats and for numpy scalars.
\<close>

theorem mass_fluxes_nan_ratio_marked_valid:
  "flux_ratio False (Fin 1) (Fin (- 1 / 2)) wqc_negdisc ''co2'' (PyInt 0) = Inr NaN
   \<and> mass_fluxes False (Fin 1) (Fin (- 1 / 2)) wqc_negdisc (Fin (- 1)) (Some 0) =
       Inr \<lparr>Fq = Fin 1, Fqt = NaN, Fqe = NaN, Fc = Fin (- 1), Fcp = NaN, Fcr = NaN\<rparr>
   \<and> mass_fluxes True (Fin 1) (Fin (- 1 / 2)) wqc_negdisc (Fin (- 1)) (Some 0) =
       Inr \<lparr>Fq = Fin 1, Fqt = NaN, Fqe = NaN, Fc = Fin (- 1), Fcp = NaN, Fcr = NaN\<rparr>
   \<and> isvalid_partition
         \<lparr>Fq = Fin 1, Fqt = NaN, Fqe = NaN, Fc = Fin (- 1), Fcp = NaN, Fcr = NaN\<rparr> = (True, [])"
  by (simp add: mass_fluxes_def flux_ratio_def wqc_negdisc_def isvalid_partition_def arith_defs)

text \<open>Whenever the ratio is nan and the fluxes are computed, they are marked valid.\<close>

lemma mass_fluxes_nan_valid:
  assumes "flux_ratio np v r wqc ''co2'' (id_arg k) = Inr NaN"
    and "mass_fluxes np v r wqc wue k = Inr mf"
  shows "isvalid_partition mf = (True, [])"
  using assms
  by (auto simp: mass_fluxes_def arith_defs isvalid_partition_def split: if_splits)

text \<open>
  At the ratio \<open>-1\<close> the division by \<^verbatim>\<open>wcr_ov_wcp + 1\<close> raises on Python floats; on
  numpy scalars the fluxes are infinite and the sign check rejects them.
\<close>

lemma mass_fluxes_ratio_minus_one:
  "flux_ratio np (Fin 1) (Fin (- 1 / 2)) wqc_minus1 ''co2'' (PyInt 0) = Inr (Fin (- 1))"
  "mass_fluxes False (Fin 1) (Fin (- 1 / 2)) wqc_minus1 (Fin (- 1)) (Some 0)
     = Inl ZeroDivisionError"
  "mass_fluxes True (Fin 1) (Fin (- 1 / 2)) wqc_minus1 (Fin (- 1)) (Some 0)
     = Inr \<lparr>Fq = Fin 1, Fqt = PInf, Fqe = NInf, Fc = Fin (- 1), Fcp = NInf, Fcr = PInf\<rparr>"
  "isvalid_partition
     \<lparr>Fq = Fin 1, Fqt = PInf, Fqe = NInf, Fc = Fin (- 1), Fcp = NInf, Fcr = PInf\<rparr>
     = (False, ''Fqe <= 0; '')"
  by (simp_all add: mass_fluxes_def flux_ratio_def wqc_minus1_def isvalid_partition_def
      arith_defs sqrt_sq[of 3 9])

section \<open>Evaluation at the concrete inputs\<close>

lemma sqrt_vals [simp]:
  "sqrt 36000000 = 6000" "sqrt 9000000000000 = 3000000" "sqrt (1 / 4) = 1 / 2"
  "sqrt 9 = 3" "sqrt 324000000000000000000 = 18000000000"
  "sqrt 121000000 = 11000" "sqrt 49000000000000 = 7000000" "sqrt (9 / 49) = 3 / 7"
  "sqrt 5929000000000000000000 = 77000000000"
  "sqrt 9000000 = 3000" "sqrt 16000000000000 = 4000000" "sqrt (16 / 25) = 4 / 5"
  "sqrt 144000000000000000000 = 12000000000" "sqrt (81 / 256) = 9 / 16"
  "sqrt 144 = 12" "sqrt 5929 = 77" "sqrt 1000000 = 1000" "sqrt 1000000000000 = 1000000"
  by (rule sqrt_sq; simp)+

lemmas findroot_defs =
  findroot_def findroot_trial_def residual_func_def flux_ratio_def isvalid_root_def
  within_tol_def tol_def arith_defs

lemma trial_both:
  "findroot_trial np wqc_both (Fin (- 1)) =
     Inr (sc_both, Fin (- 1000), Fin 12000000000000, Fin (- (1 / 2)))"
  by (simp add: findroot_trial_def wqc_both_def sc_both_def arith_defs)

lemma residual_both:
  "residual_func np (Fin (- (1 / 2)), Fin 12000000000000) sc_both (Fin (- 1000)) 0
     = Inr (Fin 0, Fin 0)"
  "residual_func np (Fin (- (1 / 2)), Fin 12000000000000) sc_both (Fin (- 1000)) 1
     = Inr (Fin 0, Fin 0)"
  by (simp_all add: residual_func_def flux_ratio_def sc_both_def arith_defs)

lemma findroot_both:
  "findroot np wqc_both (Fin (- 1)) =
     Inr \<lparr>rs_corr_cp_cr = Fin (- (1 / 2)), rs_var_cp = Fin 12,
          rs_sig_cr = Fin (sqrt 12000000000000 / 2000000),
          rs_co2soln_id = Some 1, rs_isvalid = True, rs_mssg = []\<rparr>"
  by (simp add: findroot_defs wqc_both_def)




lemma trial_none:
  "findroot_trial np wqc_none (Fin (- 1)) =
     Inr (sc_none, Fin (- 1000), Fin 16000000000000, Fin (- (4 / 5)))"
  by (simp add: findroot_trial_def wqc_none_def sc_none_def arith_defs)

lemma residual_none:
  "residual_func np (Fin (- (4 / 5)), Fin 16000000000000) sc_none (Fin (- 1000)) 0
     = Inr (Fin (- (18 / 25)), Fin 0)"
  "residual_func np (Fin (- (4 / 5)), Fin 16000000000000) sc_none (Fin (- 1000)) 1
     = Inr (Fin (- (18 / 25)), Fin (- (18 / 25)))"
  by (simp_all add: residual_func_def flux_ratio_def sc_none_def arith_defs)

lemma findroot_none:
  "findroot np wqc_none (Fin (- 1)) =
     Inr \<lparr>rs_corr_cp_cr = Fin (- (4 / 5)), rs_var_cp = Fin 16, rs_sig_cr = NaN,
          rs_co2soln_id = None, rs_isvalid = False,
          rs_mssg = ''Trial root did not satisfy equations''\<rparr>"
  by (simp add: findroot_defs wqc_none_def)

lemmas interval_defs = fvspart_interval_def mass_fluxes_def isvalid_partition_def

lemma findroot_sflip:
  "findroot np wqc_sflip (Fin (- 1)) =
     Inr \<lparr>rs_corr_cp_cr = Fin (- (3 / 7)), rs_var_cp = Fin 49, rs_sig_cr = Fin 6,
          rs_co2soln_id = Some 0, rs_isvalid = True, rs_mssg = []\<rparr>"
  by (simp add: findroot_defs wqc_sflip_def)


lemma interval_sflip:
  "fvspart_interval np wqc_sflip (Fin (- 1)) False =
     Inr \<lparr>wqc_data = wqc_sflip,
          rootsoln = \<lparr>rs_corr_cp_cr = Fin (- (3 / 7)), rs_var_cp = Fin 49, rs_sig_cr = Fin 6,
                      rs_co2soln_id = Some 0, rs_isvalid = True, rs_mssg = []\<rparr>,
          fluxes = \<lparr>Fq = Fin (- 67), Fqt = Fin (- 49), Fqe = Fin (- 18),
                  Fc = Fin 31, Fcp = Fin 49, Fcr = Fin (- 18)\<rparr>,
          valid_partition = False,
          mssg = ''Fqt <= 0; Fqe <= 0; Fcp >= 0; Fcr <= 0; '', wave_lvl = None\<rparr>"
  unfolding fvspart_interval_def findroot_sflip
  by (simp add: interval_defs wqc_sflip_def arith_defs flux_ratio_def)

text \<open>\<^verbatim>\<open>fvspart_interval\<close> itself does wipe the fluxes when asked to.\<close>

lemma interval_sflip_wiped:
  "fvspart_interval np wqc_sflip (Fin (- 1)) True =
     Inr \<lparr>wqc_data = wqc_sflip,
          rootsoln = \<lparr>rs_corr_cp_cr = Fin (- (3 / 7)), rs_var_cp = Fin 49, rs_sig_cr = Fin 6,
                      rs_co2soln_id = Some 0, rs_isvalid = True, rs_mssg = []\<rparr>,
          fluxes = MassFluxes_default,
          valid_partition = False,
          mssg = ''Fqt <= 0; Fqe <= 0; Fcp >= 0; Fcr <= 0; '', wave_lvl = None\<rparr>"
  unfolding fvspart_interval_def findroot_sflip
  by (simp add: interval_defs wqc_sflip_def arith_defs flux_ratio_def)




lemma series_lvl2:
  "fvspart_series cov_tab (lvl 2) (lvl 2) (lvl 2) (Fin (- 1)) wipe =
     fvspart_interval True wqc_sflip (Fin (- 1)) False"
  by (simp add: fvspart_series_def cov_tab_def lvl_def tab_def arith_defs wqc_sflip_def)

section \<open>The root solver\<close>

subsection \<open>The assertion cannot fail\<close>

lemma math_sqrt_no_assert: "math_sqrt x \<noteq> Inl AssertionError"
  by (cases x) auto

lemma fdiv_no_assert:
  "fdiv np x y \<noteq> Inl AssertionError" "fdiv_py x y \<noteq> Inl AssertionError"
  by (auto simp: fdiv_def fdiv_py_def)

lemma sq_times_no_assert: "sq_times a v \<noteq> Inl AssertionError"
  by (cases a) auto

lemma flux_ratio_no_assert: "flux_ratio np v r wqc ft fa \<noteq> Inl AssertionError"
  by (auto simp: flux_ratio_def ebind_Inl_iff Let_def math_sqrt_no_assert fdiv_no_assert
      sq_times_no_assert split: if_splits)

lemma residual_func_no_assert: "residual_func np x wqc wue k \<noteq> Inl AssertionError"
  by (auto simp: residual_func_def ebind_Inl_iff Let_def math_sqrt_no_assert fdiv_no_assert
      flux_ratio_no_assert split: prod.splits)

lemma findroot_trial_no_assert: "findroot_trial np wqc wue \<noteq> Inl AssertionError"
  by (auto simp: findroot_trial_def ebind_Inl_iff Let_def math_sqrt_no_assert fdiv_no_assert)

text \<open>
  When the assertion is reached, \<^verbatim>\<open>co2soln_id\<close> is \<^verbatim>\<open>None\<close> or \<^verbatim>\<open>0\<close>, and Python reads
  both as false: \<^verbatim>\<open>findroot\<close> never raises \<^verbatim>\<open>AssertionError\<close>.
\<close>

lemma findroot_no_assert: "findroot np wqc wue \<noteq> Inl AssertionError"
  by (auto simp: findroot_def ebind_Inl_iff Let_def math_sqrt_no_assert fdiv_no_assert
      flux_ratio_no_assert residual_func_no_assert findroot_trial_no_assert
      split: prod.splits if_splits)

text \<open>
  C3. The claim: when both CO2 branches satisfy the tolerance, the computation halts
  with an assertion failure. At \<open>wqc_both\<close> with \<open>wue = -1\<close> the discriminant of the CO2
  ratio is zero, both branches have residual \<open>(0, 0)\<close>, and \<^verbatim>\<open>findroot\<close> returns a
  valid Root Solution with branch 1, for Python floats and for numpy scalars.
\<close>

theorem findroot_both_branches_returns_branch_1:
  "branch_ok False (Fin (- (1 / 2)), Fin 12000000000000) sc_both (Fin (- 1000)) 0
   \<and> branch_ok False (Fin (- (1 / 2)), Fin 12000000000000) sc_both (Fin (- 1000)) 1
   \<and> findroot False wqc_both (Fin (- 1)) =
       Inr \<lparr>rs_corr_cp_cr = Fin (- (1 / 2)), rs_var_cp = Fin 12,
            rs_sig_cr = Fin (sqrt 12000000000000 / 2000000),
            rs_co2soln_id = Some 1, rs_isvalid = True, rs_mssg = []\<rparr>
   \<and> branch_ok True (Fin (- (1 / 2)), Fin 12000000000000) sc_both (Fin (- 1000)) 0
   \<and> branch_ok True (Fin (- (1 / 2)), Fin 12000000000000) sc_both (Fin (- 1000)) 1
   \<and> findroot True wqc_both (Fin (- 1)) =
       Inr \<lparr>rs_corr_cp_cr = Fin (- (1 / 2)), rs_var_cp = Fin 12,
            rs_sig_cr = Fin (sqrt 12000000000000 / 2000000),
            rs_co2soln_id = Some 1, rs_isvalid = True, rs_mssg = []\<rparr>"
  by (simp add: branch_ok_def residual_both findroot_both within_tol_def tol_def)

subsection \<open>The validity flag\<close>




lemma isvalid_root_fst:
  "fst (isvalid_root r v) = (\<not> fle v (Fin 0) \<and> flt (Fin (- 1)) r \<and> flt r (Fin 0))"
  by (auto simp: isvalid_root_def Let_def)

text \<open>The result when the bounds check fails.\<close>

lemma findroot_invalid_bounds:
  assumes "findroot_trial np wqc wue0 = Inr (sc, wue, v, r)" "\<not> fst (isvalid_root r v)"
  shows "findroot np wqc wue0 =
     Inr \<lparr>rs_corr_cp_cr = r, rs_var_cp = fmul v (Fin (1 / 1000000000000)),
          rs_sig_cr = NaN, rs_co2soln_id = None, rs_isvalid = False,
          rs_mssg = snd (isvalid_root r v)\<rparr>"
  using assms by (cases "isvalid_root r v") (simp add: findroot_def ebind_def Let_def)

text \<open>The result when the bounds check passes, from the residuals of the two branches.\<close>

lemma findroot_checked:
  assumes "findroot_trial np wqc wue0 = Inr (sc, wue, v, r)" "fst (isvalid_root r v)"
    "residual_func np (r, v) sc wue 0 = Inr r0" "residual_func np (r, v) sc wue 1 = Inr r1"
  shows "findroot np wqc wue0 =
    (if within_tol r0 \<or> within_tol r1 then
       ebind (flux_ratio np v r sc ''co2'' (PyInt (if within_tol r1 then 1 else 0)))
         (\<lambda>wcr_ov_wcp.
       ebind (math_sqrt v) (\<lambda>s.
       ebind (fdiv_py (fmul wcr_ov_wcp s) r) (\<lambda>sig_cr.
         Inr \<lparr>rs_corr_cp_cr = r, rs_var_cp = fmul v (Fin (1 / 1000000000000)),
              rs_sig_cr = fmul sig_cr (Fin (1 / 1000000)),
              rs_co2soln_id = Some (if within_tol r1 then 1 else 0),
              rs_isvalid = True, rs_mssg = []\<rparr>)))
     else Inr \<lparr>rs_corr_cp_cr = r, rs_var_cp = fmul v (Fin (1 / 1000000000000)),
              rs_sig_cr = NaN, rs_co2soln_id = None,
              rs_isvalid = False, rs_mssg = ''Trial root did not satisfy equations''\<rparr>)"
  using assms
  by (cases "isvalid_root r v"; cases "within_tol r0"; cases "within_tol r1")
     (simp_all add: findroot_def ebind_def Let_def split: sum.splits)

lemma findroot_valid_cases:
  assumes "findroot_trial np wqc wue0 = Inr (sc, wue, v, r)" "fst (isvalid_root r v)"
    "findroot np wqc wue0 = Inr rs"
  shows "rs_isvalid rs = (branch_ok np (r, v) sc wue 0 \<or> branch_ok np (r, v) sc wue 1)
    \<and> rs_co2soln_id rs = (if branch_ok np (r, v) sc wue 1 then Some 1
         else if branch_ok np (r, v) sc wue 0 then Some 0 else None)
    \<and> rs_mssg rs = (if rs_isvalid rs then [] else ''Trial root did not satisfy equations'')
    \<and> rs_corr_cp_cr rs = r \<and> rs_var_cp rs = fmul v (Fin (1 / 1000000000000))
    \<and> (\<not> rs_isvalid rs \<longrightarrow> rs_sig_cr rs = NaN)"
proof -
  obtain b where ivr: "isvalid_root r v = (True, b)"
    using assms(2) by (cases "isvalid_root r v") auto
  from assms(1,3) ivr obtain r0 where r0: "residual_func np (r, v) sc wue 0 = Inr r0"
    by (cases "residual_func np (r, v) sc wue 0") (simp_all add: findroot_def ebind_def Let_def)
  from assms(1,3) ivr r0 obtain r1 where r1: "residual_func np (r, v) sc wue 1 = Inr r1"
    by (cases "residual_func np (r, v) sc wue 1") (simp_all add: findroot_def ebind_def Let_def)
  have b0: "branch_ok np (r, v) sc wue 0 = within_tol r0"
    and b1: "branch_ok np (r, v) sc wue 1 = within_tol r1"
    by (simp_all add: branch_ok_def r0 r1)
  note fc = findroot_checked[OF assms(1,2) r0 r1]
  show ?thesis
  proof (cases "within_tol r0 \<or> within_tol r1")
    case False
    with fc assms(3)
    have "rs = \<lparr>rs_corr_cp_cr = r, rs_var_cp = fmul v (Fin (1 / 1000000000000)),
              rs_sig_cr = NaN, rs_co2soln_id = None,
              rs_isvalid = False, rs_mssg = ''Trial root did not satisfy equations''\<rparr>"
      by simp
    with False show ?thesis by (simp add: b0 b1)
  next
    case True
    with fc assms(3)
    have "ebind (flux_ratio np v r sc ''co2'' (PyInt (if within_tol r1 then 1 else 0)))
       (\<lambda>wcr_ov_wcp. ebind (math_sqrt v) (\<lambda>s.
          ebind (fdiv_py (fmul wcr_ov_wcp s) r) (\<lambda>sig_cr.
         Inr \<lparr>rs_corr_cp_cr = r, rs_var_cp = fmul v (Fin (1 / 1000000000000)),
              rs_sig_cr = fmul sig_cr (Fin (1 / 1000000)),
              rs_co2soln_id = Some (if within_tol r1 then 1 else 0),
              rs_isvalid = True, rs_mssg = []\<rparr>))) = Inr rs"
      by simp
    then obtain sg where
      "rs = \<lparr>rs_corr_cp_cr = r, rs_var_cp = fmul v (Fin (1 / 1000000000000)),
              rs_sig_cr = fmul sg (Fin (1 / 1000000)),
              rs_co2soln_id = Some (if within_tol r1 then 1 else 0),
              rs_isvalid = True, rs_mssg = []\<rparr>"
      by (auto simp: ebind_Inr_iff)
    with True show ?thesis by (auto simp: b0 b1)
  qed
qed



text \<open>
  C9 as the code has it: an invalid Root Solution has nan in \<open>sig_cr\<close> and no branch
  identifier, while \<open>corr_cp_cr\<close> and \<open>var_cp\<close> are the trial root of the closed form
  (\<open>var_cp\<close> back in SI units), whatever their values.
\<close>

theorem findroot_invalid_payload:
  assumes "findroot_trial np wqc wue0 = Inr (sc, wue, var_cp, corr_cp_cr)"
    and "findroot np wqc wue0 = Inr rs"
    and "\<not> rs_isvalid rs"
  shows "rs_sig_cr rs = NaN \<and> rs_co2soln_id rs = None
       \<and> rs_corr_cp_cr rs = corr_cp_cr
       \<and> rs_var_cp rs = fmul var_cp (Fin (1 / 1000000000000))"
proof (cases "fst (isvalid_root corr_cp_cr var_cp)")
  case False
  from findroot_invalid_bounds[OF assms(1) False] assms(2) show ?thesis by auto
next
  case True
  from findroot_valid_cases[OF assms(1) True assms(2)] assms(3) show ?thesis
    by (simp split: if_splits)
qed

theorem findroot_invalid_payload_witness:
  "findroot_trial False wqc_none (Fin (- 1)) =
     Inr (sc_none, Fin (- 1000), Fin 16000000000000, Fin (- (4 / 5)))
   \<and> \<not> rs_isvalid
         \<lparr>rs_corr_cp_cr = Fin (- (4 / 5)), rs_var_cp = Fin 16, rs_sig_cr = NaN,
          rs_co2soln_id = None, rs_isvalid = False,
          rs_mssg = ''Trial root did not satisfy equations''\<rparr>
   \<and> fmul (Fin 16000000000000) (Fin (1 / 1000000000000)) = Fin 16"
  using findroot_invalid_payload[OF trial_none[of False] findroot_none[of False]]
  by (simp add: trial_none)

text \<open>
  The claim of C9, that the correlation and the variance of an invalid Root Solution
  are nan, fails at \<open>wqc_none\<close> with \<open>wue = -1\<close>: the solution is invalid and carries
  \<open>corr_cp_cr = -4/5\<close> and \<open>var_cp = 16\<close>.
\<close>

theorem findroot_invalid_payload_counterexample:
  "findroot False wqc_none (Fin (- 1)) =
     Inr \<lparr>rs_corr_cp_cr = Fin (- (4 / 5)), rs_var_cp = Fin 16, rs_sig_cr = NaN,
          rs_co2soln_id = None, rs_isvalid = False,
          rs_mssg = ''Trial root did not satisfy equations''\<rparr>
   \<and> findroot True wqc_none (Fin (- 1)) =
     Inr \<lparr>rs_corr_cp_cr = Fin (- (4 / 5)), rs_var_cp = Fin 16, rs_sig_cr = NaN,
          rs_co2soln_id = None, rs_isvalid = False,
          rs_mssg = ''Trial root did not satisfy equations''\<rparr>
   \<and> Fin (- (4 / 5)) \<noteq> NaN \<and> Fin 16 \<noteq> NaN"
  by (simp add: findroot_none)

subsection \<open>Returning a result\<close>

text \<open>
  The properties of this subsection and of the next two sections speak of steps that
  returned, and of values as the program computes them: which inputs make a division,
  a square root or a power raise depends on rounding, overflow and underflow, which
  the model does not have.
\<close>

lemma bounds_fin:
  assumes "flt (Fin (- 1)) r" "flt r (Fin 0)"
  obtains \<rho> where "r = Fin \<rho>" "- 1 < \<rho>" "\<rho> < 0"
  using assms by (cases r) auto

lemma math_sqrt_pos_returns:
  "\<not> fle x (Fin 0) \<Longrightarrow> \<exists>s. math_sqrt x = Inr s"
  by (cases x) auto

lemma fdiv_returns: "np \<or> y \<noteq> Fin 0 \<Longrightarrow> \<exists>z. fdiv np x y = Inr z"
  by (auto simp: fdiv_def fdiv_py_def)

text \<open>A residual that was computed has computed the CO2 ratio of its branch.\<close>

lemma residual_gives_ratio:
  assumes "residual_func np (r, v) sc wue k = Inr x"
  shows "\<exists>y. flux_ratio np v r sc ''co2'' (PyInt k) = Inr y"
  using assms by (auto simp: residual_func_def ebind_Inr_iff)

text \<open>
  After the two residuals nothing can raise: the ratio of the validated branch is
  computed a second time from the same arguments, \<open>var_cp\<close> is not below zero and
  \<open>corr_cp_cr\<close> is not zero, both by the bounds check.
\<close>

lemma checked_root_gives_data:
  assumes tr: "findroot_trial np wqc wue0 = Inr (sc, wue, v, r)"
    and ok: "fst (isvalid_root r v)"
    and r0: "residual_func np (r, v) sc wue 0 = Inr r0"
    and r1: "residual_func np (r, v) sc wue 1 = Inr r1"
  shows "\<exists>rs. findroot np wqc wue0 = Inr rs"
proof -
  from ok have b: "flt (Fin (- 1)) r" "flt r (Fin 0)" "\<not> fle v (Fin 0)"
    by (simp_all add: isvalid_root_fst)
  note fc = findroot_checked[OF tr ok r0 r1]
  from b(1,2) obtain \<rho> where r: "r = Fin \<rho>" "- 1 < \<rho>" "\<rho> < 0" by (rule bounds_fin)
  from residual_gives_ratio[OF r0] residual_gives_ratio[OF r1]
  obtain x where x: "flux_ratio np v r sc ''co2'' (PyInt (if within_tol r1 then 1 else 0)) = Inr x"
    by (cases "within_tol r1") auto
  from b(3) obtain sv where sv: "math_sqrt v = Inr sv" using math_sqrt_pos_returns by blast
  from r have "fdiv_py (fmul x sv) r = Inr (fdiv_np (fmul x sv) r)" by (simp add: fdiv_py_def)
  with fc x sv show ?thesis by (simp add: ebind_def)
qed

lemma findroot_trial_raises:
  "findroot_trial np wqc wue0 = Inl e \<Longrightarrow> findroot np wqc wue0 = Inl e"
  by (simp add: findroot_def ebind_def)

lemma findroot_residual_raises:
  assumes tr: "findroot_trial np wqc wue0 = Inr (sc, wue, v, r)"
    and ok: "fst (isvalid_root r v)"
    and "residual_func np (r, v) sc wue 0 = Inl e
       \<or> (\<exists>r0. residual_func np (r, v) sc wue 0 = Inr r0)
           \<and> residual_func np (r, v) sc wue 1 = Inl e"
  shows "findroot np wqc wue0 = Inl e"
  using assms by (cases "isvalid_root r v") (auto simp: findroot_def ebind_def Let_def)

text \<open>
  C5 as the code has it. \<^verbatim>\<open>findroot\<close> raises what the closed form of the trial root
  raises and, for a trial root that passes the bounds check, what the evaluation of
  the residual of branch 0 or of branch 1 raises; it never raises
  \<^verbatim>\<open>AssertionError\<close>. It returns a Root Solution exactly when the trial root is
  computed and either fails the bounds check or has both residuals computed. In
  particular, when the trial root passes the bounds check, both residuals are computed
  and neither is within the tolerance, the value returned is the invalid Root Solution
  with the message \<^verbatim>\<open>Trial root did not satisfy equations\<close>: that no branch converges is
  reported as data.
\<close>

theorem findroot_no_branch_is_data:
  "(\<forall>e. findroot_trial np wqc wue0 = Inl e \<longrightarrow> findroot np wqc wue0 = Inl e)
   \<and> (\<forall>sc wue v r. findroot_trial np wqc wue0 = Inr (sc, wue, v, r) \<longrightarrow>
        ((\<exists>rs. findroot np wqc wue0 = Inr rs) \<longleftrightarrow>
           \<not> fst (isvalid_root r v)
           \<or> (\<exists>r0 r1. residual_func np (r, v) sc wue 0 = Inr r0
                     \<and> residual_func np (r, v) sc wue 1 = Inr r1))
        \<and> (\<forall>e. fst (isvalid_root r v)
              \<and> (residual_func np (r, v) sc wue 0 = Inl e
                  \<or> (\<exists>r0. residual_func np (r, v) sc wue 0 = Inr r0)
                      \<and> residual_func np (r, v) sc wue 1 = Inl e) \<longrightarrow>
              findroot np wqc wue0 = Inl e)
        \<and> (\<forall>r0 r1. fst (isvalid_root r v)
              \<and> residual_func np (r, v) sc wue 0 = Inr r0
              \<and> residual_func np (r, v) sc wue 1 = Inr r1
              \<and> \<not> within_tol r0 \<and> \<not> within_tol r1 \<longrightarrow>
              findroot np wqc wue0 =
                Inr \<lparr>rs_corr_cp_cr = r, rs_var_cp = fmul v (Fin (1 / 1000000000000)),
                     rs_sig_cr = NaN, rs_co2soln_id = None, rs_isvalid = False,
                     rs_mssg = ''Trial root did not satisfy equations''\<rparr>))
   \<and> findroot np wqc wue0 \<noteq> Inl AssertionError"
proof (intro conjI allI impI)
  fix e assume "findroot_trial np wqc wue0 = Inl e"
  then show "findroot np wqc wue0 = Inl e" by (rule findroot_trial_raises)
next
  fix sc wue v r
  assume tr: "findroot_trial np wqc wue0 = Inr (sc, wue, v, r)"
  show "(\<exists>rs. findroot np wqc wue0 = Inr rs) \<longleftrightarrow>
           \<not> fst (isvalid_root r v)
           \<or> (\<exists>r0 r1. residual_func np (r, v) sc wue 0 = Inr r0
                     \<and> residual_func np (r, v) sc wue 1 = Inr r1)"
  proof (cases "fst (isvalid_root r v)")
    case False
    with findroot_invalid_bounds[OF tr False] show ?thesis by simp
  next
    case True
    show ?thesis
    proof
      assume "\<exists>rs. findroot np wqc wue0 = Inr rs"
      then obtain rs where rs: "findroot np wqc wue0 = Inr rs" ..
      have "\<exists>r0. residual_func np (r, v) sc wue 0 = Inr r0"
      proof (cases "residual_func np (r, v) sc wue 0")
        case (Inl e)
        with findroot_residual_raises[OF tr True, of e] rs show ?thesis by simp
      next
        case (Inr a) then show ?thesis by blast
      qed
      then obtain r0 where r0: "residual_func np (r, v) sc wue 0 = Inr r0" ..
      have "\<exists>r1. residual_func np (r, v) sc wue 1 = Inr r1"
      proof (cases "residual_func np (r, v) sc wue 1")
        case (Inl e)
        with findroot_residual_raises[OF tr True, of e] r0 rs show ?thesis by simp
      next
        case (Inr a) then show ?thesis by blast
      qed
      with r0 show "\<not> fst (isvalid_root r v)
           \<or> (\<exists>r0 r1. residual_func np (r, v) sc wue 0 = Inr r0
                     \<and> residual_func np (r, v) sc wue 1 = Inr r1)" by blast
    next
      assume "\<not> fst (isvalid_root r v)
           \<or> (\<exists>r0 r1. residual_func np (r, v) sc wue 0 = Inr r0
                     \<and> residual_func np (r, v) sc wue 1 = Inr r1)"
      with True obtain r0 r1 where "residual_func np (r, v) sc wue 0 = Inr r0"
        "residual_func np (r, v) sc wue 1 = Inr r1" by blast
      from checked_root_gives_data[OF tr True this]
      show "\<exists>rs. findroot np wqc wue0 = Inr rs" .
    qed
  qed
next
  fix sc wue v r e
  assume tr: "findroot_trial np wqc wue0 = Inr (sc, wue, v, r)"
    and a: "fst (isvalid_root r v)
              \<and> (residual_func np (r, v) sc wue 0 = Inl e
                  \<or> (\<exists>r0. residual_func np (r, v) sc wue 0 = Inr r0)
                      \<and> residual_func np (r, v) sc wue 1 = Inl e)"
  from a findroot_residual_raises[OF tr, of e]
  show "findroot np wqc wue0 = Inl e" by blast
next
  fix sc wue v r r0 r1
  assume tr: "findroot_trial np wqc wue0 = Inr (sc, wue, v, r)"
    and a: "fst (isvalid_root r v)
              \<and> residual_func np (r, v) sc wue 0 = Inr r0
              \<and> residual_func np (r, v) sc wue 1 = Inr r1
              \<and> \<not> within_tol r0 \<and> \<not> within_tol r1"
  from a findroot_checked[OF tr, of r0 r1]
  show "findroot np wqc wue0 =
                Inr \<lparr>rs_corr_cp_cr = r, rs_var_cp = fmul v (Fin (1 / 1000000000000)),
                     rs_sig_cr = NaN, rs_co2soln_id = None, rs_isvalid = False,
                     rs_mssg = ''Trial root did not satisfy equations''\<rparr>"
    by simp
next
  show "findroot np wqc wue0 \<noteq> Inl AssertionError" by (rule findroot_no_assert)
qed

theorem findroot_no_branch_is_data_witness:
  "findroot_trial False wqc_none (Fin (- 1)) =
       Inr (sc_none, Fin (- 1000), Fin 16000000000000, Fin (- (4 / 5)))
   \<and> fst (isvalid_root (Fin (- (4 / 5))) (Fin 16000000000000))
   \<and> residual_func False (Fin (- (4 / 5)), Fin 16000000000000) sc_none (Fin (- 1000)) 0
       = Inr (Fin (- (18 / 25)), Fin 0)
   \<and> residual_func False (Fin (- (4 / 5)), Fin 16000000000000) sc_none (Fin (- 1000)) 1
       = Inr (Fin (- (18 / 25)), Fin (- (18 / 25)))
   \<and> \<not> within_tol (Fin (- (18 / 25)), Fin 0)
   \<and> \<not> within_tol (Fin (- (18 / 25)), Fin (- (18 / 25)))
   \<and> findroot False wqc_none (Fin (- 1)) =
       Inr \<lparr>rs_corr_cp_cr = Fin (- (4 / 5)), rs_var_cp = Fin 16, rs_sig_cr = NaN,
            rs_co2soln_id = None, rs_isvalid = False,
            rs_mssg = ''Trial root did not satisfy equations''\<rparr>"
  using findroot_no_branch_is_data[of False wqc_none "Fin (- 1)", THEN conjunct2, THEN conjunct1,
      rule_format, OF trial_none, THEN conjunct2, THEN conjunct2, rule_format,
      of "(Fin (- (18 / 25)), Fin 0)" "(Fin (- (18 / 25)), Fin (- (18 / 25)))"]
  by (simp add: trial_none isvalid_root_fst residual_none within_tol_def tol_def)

text \<open>
  The claim of C5, that \<^verbatim>\<open>findroot\<close> never raises, fails. On a summary of Python floats
  with zero net fluxes the closed form divides zero by zero and raises
  \<^verbatim>\<open>ZeroDivisionError\<close>; with \<open>corr_qc = 2\<close> the squared correlation is \<open>-1/2\<close> and
  \<^verbatim>\<open>math.sqrt\<close> raises \<^verbatim>\<open>ValueError\<close>, as it does on a negative variance, for Python
  floats and numpy scalars alike.
\<close>

theorem findroot_raises_counterexample:
  "findroot False wqc_zero (Fin (- 1)) = Inl ZeroDivisionError
   \<and> findroot False wqc_over (Fin (- 1)) = Inl ValueError
   \<and> findroot True wqc_over (Fin (- 1)) = Inl ValueError
   \<and> findroot False wqc_negvar (Fin (- 1)) = Inl ValueError
   \<and> findroot True wqc_negvar (Fin (- 1)) = Inl ValueError"
  by (simp add: findroot_def findroot_trial_def wqc_zero_def wqc_over_def wqc_negvar_def
      arith_defs)

section \<open>The flux ratio\<close>

text \<open>The value of the function from a discriminant that is not negative.\<close>

lemma ratio_of_disc:
  assumes "c \<noteq> 0" "sg = 1 \<or> sg = - 1" "\<not> flt d (Fin 0)"
  shows "\<exists>s. math_sqrt d = Inr s
     \<and> (fmul (Fin c) (fsub (fmul (Fin sg) s) (Fin 1)) = NaN \<longleftrightarrow> d = NaN)"
  using assms by (cases d) (auto simp: fsub_def)

lemma flux_ratio_co2_unfold:
  "flux_ratio np v r wqc ''co2'' (PyInt k) =
     ebind (fdiv_py (Fin 1) (fpow2 r)) (\<lambda>t1.
     ebind (fdiv np (var_c wqc) v) (\<lambda>t2.
     ebind (fdiv np t2 (fpow2 r)) (\<lambda>t3.
       let disc = fadd (fsub (Fin 1) t1) t3 in
       if flt disc (Fin 0) then Inr NaN
       else ebind (math_sqrt disc) (\<lambda>s.
         Inr (fmul (fpow2 r) (fsub (fmul (Fin (if k = 1 then 1 else - 1)) s) (Fin 1)))))))"
  by (simp add: flux_ratio_def ebind_def)

lemma flux_ratio_h2o_unfold:
  "flux_ratio np v r wqc ''h2o'' (PyFloat u) =
     ebind (fdiv_py (Fin 1) (fpow2 r)) (\<lambda>t1.
     ebind (fdiv np (fmul (fpow2 u) (var_q wqc)) v) (\<lambda>t2.
     ebind (fdiv np t2 (fpow2 r)) (\<lambda>t3.
       let disc = fadd (fsub (Fin 1) t1) t3 in
       if flt disc (Fin 0) then Inr NaN
       else ebind (math_sqrt disc) (\<lambda>s.
         Inr (fmul (fpow2 r) (fsub (fmul (Fin 1) s) (Fin 1)))))))"
  by (simp add: flux_ratio_def ebind_def)

lemma ratio_from_quotients:
  fixes \<rho> :: real
  assumes nz: "\<rho> \<noteq> 0" and sg: "sg = 1 \<or> sg = - 1" and v: "np \<or> v \<noteq> Fin 0"
    and fr: "\<And>t1 t2 t3. fdiv_py (Fin 1) (fpow2 (Fin \<rho>)) = Inr t1 \<Longrightarrow> fdiv np num v = Inr t2
       \<Longrightarrow> fdiv np t2 (fpow2 (Fin \<rho>)) = Inr t3 \<Longrightarrow>
       fr = (if flt (fadd (fsub (Fin 1) t1) t3) (Fin 0) then Inr NaN
       else ebind (math_sqrt (fadd (fsub (Fin 1) t1) t3)) (\<lambda>s.
         Inr (fmul (fpow2 (Fin \<rho>)) (fsub (fmul (Fin sg) s) (Fin 1)))))"
  shows "\<exists>t1 t2 t3 d x.
            fdiv_py (Fin 1) (fpow2 (Fin \<rho>)) = Inr t1
          \<and> fdiv np num v = Inr t2
          \<and> fdiv np t2 (fpow2 (Fin \<rho>)) = Inr t3
          \<and> d = fadd (fsub (Fin 1) t1) t3
          \<and> fr = Inr x
          \<and> (x = NaN \<longleftrightarrow> flt d (Fin 0) \<or> d = NaN)
          \<and> (\<not> flt d (Fin 0) \<longrightarrow>
               (\<exists>s. math_sqrt d = Inr s
                  \<and> x = fmul (fpow2 (Fin \<rho>)) (fsub (fmul (Fin sg) s) (Fin 1))))
          \<and> (d = Fin 0 \<longrightarrow> x = fmul (fpow2 (Fin \<rho>)) (Fin (- 1)))"
proof -
  from nz have p: "fpow2 (Fin \<rho>) = Fin (\<rho> * \<rho>)" "\<rho> * \<rho> \<noteq> 0" by (simp_all add: fpow2_def)
  then have t1: "fdiv_py (Fin 1) (fpow2 (Fin \<rho>)) = Inr (Fin (1 / (\<rho> * \<rho>)))"
    by (simp add: fdiv_py_def)
  from v obtain t2 where t2: "fdiv np num v = Inr t2" using fdiv_returns by blast
  from p obtain t3 where t3: "fdiv np t2 (fpow2 (Fin \<rho>)) = Inr t3"
    using fdiv_returns[of np "fpow2 (Fin \<rho>)" t2] by auto
  define d where "d = fadd (fsub (Fin 1) (Fin (1 / (\<rho> * \<rho>)))) t3"
  note e = fr[OF t1 t2 t3, folded d_def]
  show ?thesis
  proof (cases "flt d (Fin 0)")
    case True
    with e have "fr = Inr NaN" by simp
    with t1 t2 t3 True d_def show ?thesis by (cases d) auto
  next
    case False
    from ratio_of_disc[OF p(2) sg False] obtain s where
      s: "math_sqrt d = Inr s"
      "fmul (Fin (\<rho> * \<rho>)) (fsub (fmul (Fin sg) s) (Fin 1)) = NaN \<longleftrightarrow> d = NaN" by blast
    from e False s have x: "fr = Inr (fmul (Fin (\<rho> * \<rho>)) (fsub (fmul (Fin sg) s) (Fin 1)))"
      by (simp add: ebind_def p)
    have z: "d = Fin 0 \<longrightarrow> fmul (Fin (\<rho> * \<rho>)) (fsub (fmul (Fin sg) s) (Fin 1))
        = fmul (fpow2 (Fin \<rho>)) (Fin (- 1))"
      using s(1) by (auto simp: p fsub_def)
    from t1 t2 t3 d_def x s False z show ?thesis by (auto simp: p)
  qed
qed

text \<open>
  C8 as the code has it. Let \<open>corr_cp_cr\<close> be finite with
  \<open>2 ** -500 \<le> |corr_cp_cr| \<le> 2 ** 500\<close>, so that its square is a double other than zero
  and infinity, and let \<open>var_cp\<close> be any float, not zero if the scalars are Python
  floats. Then the three quotients of the discriminant are computed, say \<open>t1\<close>, \<open>t2\<close>
  and \<open>t3\<close>, and \<^verbatim>\<open>flux_ratio\<close> returns, for CO2 with an integer branch and for water
  with a finite \<open>wue\<close>, \<open>|wue| \<le> 2 ** 500\<close>. With \<open>d = 1 - t1 + t3\<close> the discriminant as
  computed, the value is nan exactly when \<open>d\<close> is negative or nan, it is
  \<open>corr_cp_cr ** 2 * (sign * sqrt(d) - 1)\<close> when \<open>d\<close> is not negative, and
  \<open>corr_cp_cr ** 2 * (-1)\<close> when \<open>d\<close> is zero, on either branch.
\<close>

theorem flux_ratio_computed_disc:
  fixes \<rho> u :: real
  assumes "1 / 2 ^ 500 \<le> \<bar>\<rho>\<bar>" "\<bar>\<rho>\<bar> \<le> 2 ^ 500" "\<bar>u\<bar> \<le> 2 ^ 500"
    and "np \<or> v \<noteq> Fin 0"
  shows "(\<exists>t1 t2 t3 d x.
            fdiv_py (Fin 1) (fpow2 (Fin \<rho>)) = Inr t1
          \<and> fdiv np (var_c wqc) v = Inr t2
          \<and> fdiv np t2 (fpow2 (Fin \<rho>)) = Inr t3
          \<and> d = fadd (fsub (Fin 1) t1) t3
          \<and> flux_ratio np v (Fin \<rho>) wqc ''co2'' (PyInt k) = Inr x
          \<and> (x = NaN \<longleftrightarrow> flt d (Fin 0) \<or> d = NaN)
          \<and> (\<not> flt d (Fin 0) \<longrightarrow>
               (\<exists>s. math_sqrt d = Inr s
                  \<and> x = fmul (fpow2 (Fin \<rho>))
                          (fsub (fmul (Fin (if k = 1 then 1 else - 1)) s) (Fin 1))))
          \<and> (d = Fin 0 \<longrightarrow> x = fmul (fpow2 (Fin \<rho>)) (Fin (- 1))))
       \<and> (\<exists>t1 t2 t3 d y.
            fdiv_py (Fin 1) (fpow2 (Fin \<rho>)) = Inr t1
          \<and> fdiv np (fmul (fpow2 (Fin u)) (var_q wqc)) v = Inr t2
          \<and> fdiv np t2 (fpow2 (Fin \<rho>)) = Inr t3
          \<and> d = fadd (fsub (Fin 1) t1) t3
          \<and> flux_ratio np v (Fin \<rho>) wqc ''h2o'' (PyFloat (Fin u)) = Inr y
          \<and> (y = NaN \<longleftrightarrow> flt d (Fin 0) \<or> d = NaN)
          \<and> (\<not> flt d (Fin 0) \<longrightarrow>
               (\<exists>s. math_sqrt d = Inr s
                  \<and> y = fmul (fpow2 (Fin \<rho>)) (fsub (fmul (Fin 1) s) (Fin 1))))
          \<and> (d = Fin 0 \<longrightarrow> y = fmul (fpow2 (Fin \<rho>)) (Fin (- 1))))"
proof -
  have "(0::real) < 1 / 2 ^ 500" by simp
  with assms(1) have nz: "\<rho> \<noteq> 0" by auto
  have sg: "(if k = 1 then (1::real) else - 1) = 1 \<or> (if k = 1 then (1::real) else - 1) = - 1"
    by simp
  show ?thesis
  proof
    show "\<exists>t1 t2 t3 d x.
            fdiv_py (Fin 1) (fpow2 (Fin \<rho>)) = Inr t1
          \<and> fdiv np (var_c wqc) v = Inr t2
          \<and> fdiv np t2 (fpow2 (Fin \<rho>)) = Inr t3
          \<and> d = fadd (fsub (Fin 1) t1) t3
          \<and> flux_ratio np v (Fin \<rho>) wqc ''co2'' (PyInt k) = Inr x
          \<and> (x = NaN \<longleftrightarrow> flt d (Fin 0) \<or> d = NaN)
          \<and> (\<not> flt d (Fin 0) \<longrightarrow>
               (\<exists>s. math_sqrt d = Inr s
                  \<and> x = fmul (fpow2 (Fin \<rho>))
                          (fsub (fmul (Fin (if k = 1 then 1 else - 1)) s) (Fin 1))))
          \<and> (d = Fin 0 \<longrightarrow> x = fmul (fpow2 (Fin \<rho>)) (Fin (- 1)))"
      by (rule ratio_from_quotients[OF nz sg assms(4)])
         (simp add: flux_ratio_co2_unfold ebind_def Let_def)
    show "\<exists>t1 t2 t3 d y.
            fdiv_py (Fin 1) (fpow2 (Fin \<rho>)) = Inr t1
          \<and> fdiv np (fmul (fpow2 (Fin u)) (var_q wqc)) v = Inr t2
          \<and> fdiv np t2 (fpow2 (Fin \<rho>)) = Inr t3
          \<and> d = fadd (fsub (Fin 1) t1) t3
          \<and> flux_ratio np v (Fin \<rho>) wqc ''h2o'' (PyFloat (Fin u)) = Inr y
          \<and> (y = NaN \<longleftrightarrow> flt d (Fin 0) \<or> d = NaN)
          \<and> (\<not> flt d (Fin 0) \<longrightarrow>
               (\<exists>s. math_sqrt d = Inr s
                  \<and> y = fmul (fpow2 (Fin \<rho>)) (fsub (fmul (Fin 1) s) (Fin 1))))
          \<and> (d = Fin 0 \<longrightarrow> y = fmul (fpow2 (Fin \<rho>)) (Fin (- 1)))"
      by (rule ratio_from_quotients[OF nz _ assms(4)], simp)
         (simp add: flux_ratio_h2o_unfold ebind_def Let_def)
  qed
qed

theorem flux_ratio_computed_disc_witness:
  "(1 / 2 ^ 500 :: real) \<le> \<bar>- 1 / 2\<bar> \<and> \<bar>- 1 / 2 :: real\<bar> \<le> 2 ^ 500
   \<and> \<bar>- 1000 :: real\<bar> \<le> 2 ^ 500 \<and> Fin 12000000000000 \<noteq> Fin 0
   \<and> fdiv_py (Fin 1) (fpow2 (Fin (- 1 / 2))) = Inr (Fin 4)
   \<and> fdiv False (var_c sc_both) (Fin 12000000000000) = Inr (Fin (3 / 4))
   \<and> fdiv False (Fin (3 / 4)) (fpow2 (Fin (- 1 / 2))) = Inr (Fin 3)
   \<and> fadd (fsub (Fin 1) (Fin 4)) (Fin 3) = Fin 0
   \<and> flux_ratio False (Fin 12000000000000) (Fin (- 1 / 2)) sc_both ''co2'' (PyInt 0)
       = Inr (Fin (- 1 / 4))
   \<and> fmul (fpow2 (Fin (- 1 / 2))) (Fin (- 1)) = Fin (- 1 / 4)
   \<and> flux_ratio False (Fin 12000000000000) (Fin (- 1 / 2)) sc_both ''h2o''
         (PyFloat (Fin (- 1000))) = Inr (Fin (1 / 2))"
  using flux_ratio_computed_disc[where \<rho> = "- 1 / 2" and v = "Fin 12000000000000"
      and wqc = sc_both and u = "- 1000" and np = False and k = 0]
  by (auto simp: sc_both_def flux_ratio_def arith_defs)

text \<open>
  The claim of C8, that \<^verbatim>\<open>flux_ratio\<close> never raises and returns nan only at a negative
  discriminant, fails: \<open>corr_cp_cr = 0.0\<close> raises \<^verbatim>\<open>ZeroDivisionError\<close> at
  \<^verbatim>\<open>1 / corr_cp_cr ** 2\<close>, so does a zero \<open>var_cp\<close> of Python floats, and a nan
  \<open>var_cp\<close> gives nan although the discriminant, itself nan, is not negative.
\<close>

theorem flux_ratio_counterexample:
  "flux_ratio False (Fin 1) (Fin 0) wqc_both ''co2'' (PyInt 0) = Inl ZeroDivisionError
   \<and> flux_ratio True (Fin 1) (Fin 0) wqc_both ''co2'' (PyInt 0) = Inl ZeroDivisionError
   \<and> flux_ratio False (Fin 0) (Fin (- 1 / 2)) wqc_both ''co2'' (PyInt 0)
       = Inl ZeroDivisionError
   \<and> flux_ratio False NaN (Fin (- 1 / 2)) wqc_both ''co2'' (PyInt 0) = Inr NaN"
  by (simp add: flux_ratio_def arith_defs wqc_both_def)

section \<open>The flux adjuster\<close>

text \<open>
  Over the reals the adjusted components add up to the targets. The program rounds
  the two subtractions \<open>Fq_tot - Fqe\<close> and \<open>Fc_tot - Fcp\<close>, so for doubles this is an
  identity up to that rounding, and no bound on the relative error follows from it.
\<close>

lemma adjust_fluxes_real_sums:
  assumes "Fqt fc = Fin t" "Fqe fc = Fin e" "t + e \<noteq> 0"
    and "adjust_fluxes np fc (Fin u) (Fin Q) (Fin C) = Inr r"
  shows "fadd (Fqt r) (Fqe r) = Fin Q \<and> fadd (Fcp r) (Fcr r) = Fin C"
  using assms by (cases np) (auto simp: adjust_fluxes_def arith_defs)




section \<open>The single-window solve\<close>





lemma fvspart_interval_no_wipe:
  assumes "fvspart_interval np wqc wue False = Inr r" "rs_isvalid (rootsoln r)"
  shows "wqc_data r = wqc
    \<and> mass_fluxes np (rs_var_cp (rootsoln r)) (rs_corr_cp_cr (rootsoln r)) wqc wue
         (rs_co2soln_id (rootsoln r)) = Inr (fluxes r)
    \<and> isvalid_partition (fluxes r) = (valid_partition r, mssg r)"
proof -
  from assms(1) obtain rs where rs: "findroot np wqc wue = Inr rs"
    and rest: "(if \<not> rs_isvalid rs then
         Inr \<lparr>wqc_data = wqc, rootsoln = rs, fluxes = MassFluxes_default,
              valid_partition = False, mssg = rs_mssg rs, wave_lvl = None\<rparr>
       else
         ebind (mass_fluxes np (rs_var_cp rs) (rs_corr_cp_cr rs) wqc wue (rs_co2soln_id rs))
           (\<lambda>mf.
             let (isvalid, m) = isvalid_partition mf;
                 mf = (if \<not> isvalid \<and> False then MassFluxes_default else mf) in
             Inr \<lparr>wqc_data = wqc, rootsoln = rs, fluxes = mf,
                  valid_partition = isvalid, mssg = m, wave_lvl = None\<rparr>)) = Inr r"
    unfolding fvspart_interval_def ebind_Inr_iff by blast
  show ?thesis
  proof (cases "rs_isvalid rs")
    case False
    with rest assms(2) show ?thesis by auto
  next
    case True
    with rest have "ebind (mass_fluxes np (rs_var_cp rs) (rs_corr_cp_cr rs) wqc wue (rs_co2soln_id rs))
           (\<lambda>mf.
             let (isvalid, m) = isvalid_partition mf;
                 mf = (if \<not> isvalid \<and> False then MassFluxes_default else mf) in
             Inr \<lparr>wqc_data = wqc, rootsoln = rs, fluxes = mf,
                  valid_partition = isvalid, mssg = m, wave_lvl = None\<rparr>) = Inr r"
      by simp
    then obtain mf where mf: "mass_fluxes np (rs_var_cp rs) (rs_corr_cp_cr rs) wqc wue (rs_co2soln_id rs) = Inr mf"
      and r: "(let (isvalid, m) = isvalid_partition mf;
                 mf = (if \<not> isvalid \<and> False then MassFluxes_default else mf) in
             Inr \<lparr>wqc_data = wqc, rootsoln = rs, fluxes = mf,
                  valid_partition = isvalid, mssg = m, wave_lvl = None\<rparr>)
               = (Inr r :: error + FVSPResult)"
      unfolding ebind_Inr_iff by (elim exE conjE)
    from r have "rootsoln r = rs \<and> wqc_data r = wqc \<and> fluxes r = mf
        \<and> isvalid_partition mf = (valid_partition r, mssg r)"
      by (cases "isvalid_partition mf") (auto simp: Let_def)
    with mf show ?thesis by simp
  qed
qed

text \<open>
  C10. \<^verbatim>\<open>fvspart_series\<close> returns the same result whatever \<open>wipe_if_invalid\<close> is: the
  flag is never passed on. So, wiping requested or not, a result with a valid root
  whose partition fails the sign check keeps the fluxes \<^verbatim>\<open>_mass_fluxes\<close> computed,
  with the message of the sign check.
\<close>

theorem fvspart_series_ignores_wipe:
  "fvspart_series np_cov w q c wue wipe = fvspart_series np_cov w q c wue False
   \<and> (\<forall>r. fvspart_series np_cov w q c wue True = Inr r \<and> rs_isvalid (rootsoln r)
          \<and> \<not> valid_partition r \<longrightarrow>
        mass_fluxes True (rs_var_cp (rootsoln r)) (rs_corr_cp_cr (rootsoln r)) (wqc_data r) wue
          (rs_co2soln_id (rootsoln r)) = Inr (fluxes r)
        \<and> isvalid_partition (fluxes r) = (False, mssg r))"
proof (intro conjI allI impI)
  show "fvspart_series np_cov w q c wue wipe = fvspart_series np_cov w q c wue False"
    by (simp add: fvspart_series_def)
next
  fix r
  assume a: "fvspart_series np_cov w q c wue True = Inr r \<and> rs_isvalid (rootsoln r) \<and> \<not> valid_partition r"
  then obtain wqc where "fvspart_interval True wqc wue False = Inr r"
    by (auto simp: fvspart_series_def ebind_Inr_iff Let_def)
  from fvspart_interval_no_wipe[OF this] a
  show "mass_fluxes True (rs_var_cp (rootsoln r)) (rs_corr_cp_cr (rootsoln r)) (wqc_data r) wue
          (rs_co2soln_id (rootsoln r)) = Inr (fluxes r)"
    and "isvalid_partition (fluxes r) = (False, mssg r)" by auto
qed

theorem fvspart_series_ignores_wipe_witness:
  "fvspart_series cov_tab (lvl 2) (lvl 2) (lvl 2) (Fin (- 1)) True =
     Inr \<lparr>wqc_data = wqc_sflip,
          rootsoln = \<lparr>rs_corr_cp_cr = Fin (- (3 / 7)), rs_var_cp = Fin 49, rs_sig_cr = Fin 6,
                      rs_co2soln_id = Some 0, rs_isvalid = True, rs_mssg = []\<rparr>,
          fluxes = \<lparr>Fq = Fin (- 67), Fqt = Fin (- 49), Fqe = Fin (- 18),
                  Fc = Fin 31, Fcp = Fin 49, Fcr = Fin (- 18)\<rparr>,
          valid_partition = False,
          mssg = ''Fqt <= 0; Fqe <= 0; Fcp >= 0; Fcr <= 0; '', wave_lvl = None\<rparr>
   \<and> mass_fluxes True (Fin 49) (Fin (- (3 / 7))) wqc_sflip (Fin (- 1)) (Some 0) =
       Inr \<lparr>Fq = Fin (- 67), Fqt = Fin (- 49), Fqe = Fin (- 18),
            Fc = Fin 31, Fcp = Fin 49, Fcr = Fin (- 18)\<rparr>"
  using fvspart_series_ignores_wipe[of cov_tab "lvl 2" "lvl 2" "lvl 2" "Fin (- 1)" True]
  by (simp add: series_lvl2 interval_sflip)

section \<open>The progressive orchestrator\<close>



















end
